theory Spec2Isabelle
  imports Main "HOL-Library.Word" "HOL-Library.Sublist"
begin

unbundle bit_operations_syntax

section \<open>gauthctl: the environment the program runs in\<close>

text \<open>
  \<^verbatim>\<open>gauthctl.c\<close> is a setuid helper: it runs the PAM stack for the calling user and
  then installs (\<^verbatim>\<open>--enable <file>\<close>) or removes (\<^verbatim>\<open>--disable\<close>) that user's state file
  below \<^verbatim>\<open>GAUTH_STATEDIR\<close>. Everything the program does goes through libc, the kernel
  and PAM, so the model has three parts: a file namespace that the system calls act on,
  a record of the answers the environment gives where the source branches on them
  (allocation, the passwd database, PAM return codes, I/O errors, short transfers), and
  the functions of the source written over both. Each function returns its result, the
  world it leaves and the list of external calls it made, in order.

  What the model leaves out: the diagnostics written to \<^verbatim>\<open>stderr\<close> and \<^verbatim>\<open>free\<close>, which
  decide nothing; other processes (one invocation runs alone); and hard links and
  alternative spellings of a path, a name being the whole path string. A file holds
  finitely many bytes, so the copy loop ends. \<^verbatim>\<open>char opt\<close> is compared with -1 as on a
  platform whose \<^verbatim>\<open>char\<close> is signed.
\<close>

type_synonym byte = "8 word"
type_synonym uid_t = "32 word"
type_synonym mode_t = "32 word"

text \<open>
  Error numbers. \<open>ENOENT\<close>, \<open>EEXIST\<close>, \<open>ELOOP\<close> and \<open>EISDIR\<close> are decided by the
  modelled namespace; a \<open>fault\<close> is any other error, raised by the environment
  whatever the namespace holds (permissions, quota, the medium).
\<close>

datatype fault = EACCES | EPERM | EIO | EROFS | ENOSPC | EDQUOT | EFBIG | EINTR | ENOMEM | EMFILE | EBUSY

datatype errno = ENOENT | EEXIST | ELOOP | EISDIR | EBADF | Env fault

datatype kind = Regular | Directory | Symlink

record inode =
  i_kind :: kind
  i_uid :: uid_t
  i_mode :: mode_t
  i_data :: "byte list"

type_synonym fs = "string \<rightharpoonup> inode"

text \<open>
  The world a call can change: the names and what they denote, and the credentials and
  file-creation mask of the process. \<open>ruid\<close> is what \<^verbatim>\<open>getuid()\<close> answers (the calling
  user), \<open>euid\<close> the identity files are created under (the setuid owner).
\<close>

record world =
  files :: fs
  ruid :: uid_t
  euid :: uid_t
  cur_umask :: mode_t

text \<open>What a single \<^verbatim>\<open>read\<close> or \<^verbatim>\<open>write\<close> may do besides transferring everything asked for.\<close>

datatype rd_ev = Rd_fail fault | Rd_short nat

datatype wr_ev = Wr_fail fault | Wr_short nat

text \<open>
  The answers of the environment, one field per call site of the source. An empty
  schedule of reads or writes means that every transfer is complete.
\<close>

record env =
  passwd :: "uid_t \<rightharpoonup> string"
  malloc_path :: bool
  pam_start_ret :: int
  pam_authenticate_ret :: int
  pam_acct_mgmt_ret :: int
  pam_end_ret :: int
  malloc_tmp :: bool
  flt_open_in :: "fault option"
  flt_fstat :: "fault option"
  flt_unlink_tmp :: "fault option"
  flt_open_out :: "fault option"
  rd_sched :: "rd_ev list"
  wr_sched :: "wr_ev list"
  flt_rename :: "fault option"
  flt_unlink :: "fault option"

datatype fdn = In_fd | Out_fd

datatype event =
    E_umask
  | E_getpwuid
  | E_malloc nat
  | E_pam_start string
  | E_pam_authenticate
  | E_pam_acct_mgmt
  | E_pam_end
  | E_open string
  | E_fstat
  | E_unlink string
  | E_creat string
  | E_read int
  | E_write int
  | E_close fdn
  | E_rename string string

type_synonym 'a run = "'a \<times> world \<times> event list"

definition emit :: "event list \<Rightarrow> 'a run \<Rightarrow> 'a run" where
  "emit evs r = (fst r, fst (snd r), evs @ snd (snd r))"

subsection \<open>System calls\<close>

text \<open>\<^verbatim>\<open>open(path, O_RDONLY|O_NOFOLLOW)\<close>: the descriptor denotes the inode found, whatever
  happens to the name afterwards.\<close>

definition sys_open_in :: "fault option \<Rightarrow> fs \<Rightarrow> string \<Rightarrow> errno + inode" where
  "sys_open_in flt fs p =
     (case flt of
        Some e \<Rightarrow> Inl (Env e)
      | None \<Rightarrow>
          (case fs p of
             None \<Rightarrow> Inl ENOENT
           | Some n \<Rightarrow> if i_kind n = Symlink then Inl ELOOP else Inr n))"

definition S_IFREG :: mode_t where "S_IFREG = 0x8000"
definition S_IFDIR :: mode_t where "S_IFDIR = 0x4000"
definition S_IFLNK :: mode_t where "S_IFLNK = 0xA000"

fun kind_bits :: "kind \<Rightarrow> mode_t" where
  "kind_bits Regular = S_IFREG"
| "kind_bits Directory = S_IFDIR"
| "kind_bits Symlink = S_IFLNK"

record stat =
  st_uid :: uid_t
  st_mode :: mode_t

definition sys_fstat :: "fault option \<Rightarrow> inode \<Rightarrow> errno + stat" where
  "sys_fstat flt n =
     (case flt of
        Some e \<Rightarrow> Inl (Env e)
      | None \<Rightarrow> Inr \<lparr>st_uid = i_uid n, st_mode = kind_bits (i_kind n) OR i_mode n\<rparr>)"

text \<open>\<^verbatim>\<open>unlink\<close>: \<open>None\<close> is the return value 0, \<open>Some e\<close> is -1 with \<^verbatim>\<open>errno\<close> = e.\<close>

definition sys_unlink :: "fault option \<Rightarrow> fs \<Rightarrow> string \<Rightarrow> errno option \<times> fs" where
  "sys_unlink flt fs p =
     (case flt of
        Some e \<Rightarrow> (Some (Env e), fs)
      | None \<Rightarrow>
          (case fs p of
             None \<Rightarrow> (Some ENOENT, fs)
           | Some n \<Rightarrow>
               if i_kind n = Directory then (Some EISDIR, fs) else (None, fs(p := None))))"

text \<open>\<^verbatim>\<open>open(p, O_WRONLY|O_CREAT|O_EXCL, mode)\<close>: fails on any existing name, also a
  symlink; the new file belongs to the effective user and gets the mode bits the umask
  leaves.\<close>

definition sys_creat_excl :: "fault option \<Rightarrow> world \<Rightarrow> string \<Rightarrow> mode_t \<Rightarrow> errno option \<times> fs" where
  "sys_creat_excl flt w p m =
     (case flt of
        Some e \<Rightarrow> (Some (Env e), files w)
      | None \<Rightarrow>
          (case files w p of
             Some n \<Rightarrow> (Some EEXIST, files w)
           | None \<Rightarrow>
               (None, (files w)(p \<mapsto>
                  \<lparr>i_kind = Regular, i_uid = euid w,
                   i_mode = m AND NOT (cur_umask w), i_data = []\<rparr>))))"

definition next_ev :: "'a list \<Rightarrow> 'a option" where
  "next_ev xs = (case xs of [] \<Rightarrow> None | x # _ \<Rightarrow> Some x)"

text \<open>
  \<^verbatim>\<open>read(fd, buf, cnt)\<close> at offset \<open>off\<close> of the open inode: the return value and the
  bytes put into the buffer. A directory cannot be read; at the end of the data the
  call returns 0; before it, at least one byte arrives, at most \<open>cnt\<close>, and
  \<open>Rd_short k\<close> cuts the transfer after \<open>k + 1\<close> bytes.
\<close>

definition sys_read :: "rd_ev option \<Rightarrow> inode \<Rightarrow> nat \<Rightarrow> nat \<Rightarrow> int \<times> byte list" where
  "sys_read ev n off cnt =
     (case ev of
        Some (Rd_fail e) \<Rightarrow> (- 1, [])
      | Some (Rd_short k) \<Rightarrow>
          if i_kind n = Directory then (- 1, [])
          else (int (length (take (Suc k) (take cnt (drop off (i_data n))))),
                take (Suc k) (take cnt (drop off (i_data n))))
      | None \<Rightarrow>
          if i_kind n = Directory then (- 1, [])
          else (int (length (take cnt (drop off (i_data n)))), take cnt (drop off (i_data n))))"

text \<open>
  \<^verbatim>\<open>write(fd, buf, n)\<close> on the descriptor opened for the name \<open>p\<close>: the file was created
  empty and nothing else writes to it, so the data goes to its end. \<open>Wr_short k\<close>
  accepts only the first \<open>k\<close> bytes and returns their number.
\<close>

definition sys_write :: "wr_ev option \<Rightarrow> fs \<Rightarrow> string \<Rightarrow> byte list \<Rightarrow> int \<times> fs" where
  "sys_write ev fs p buf =
     (case ev of
        Some (Wr_fail e) \<Rightarrow> (- 1, fs)
      | Some (Wr_short k) \<Rightarrow>
          (case fs p of
             None \<Rightarrow> (- 1, fs)
           | Some n \<Rightarrow>
               (int (length (take k buf)), fs(p \<mapsto> n\<lparr>i_data := i_data n @ take k buf\<rparr>)))
      | None \<Rightarrow>
          (case fs p of
             None \<Rightarrow> (- 1, fs)
           | Some n \<Rightarrow> (int (length buf), fs(p \<mapsto> n\<lparr>i_data := i_data n @ buf\<rparr>))))"

text \<open>\<^verbatim>\<open>rename(old, new)\<close>: one step that either replaces \<open>new\<close> by the inode of \<open>old\<close>
  and drops the name \<open>old\<close>, or changes nothing.\<close>

definition sys_rename :: "fault option \<Rightarrow> fs \<Rightarrow> string \<Rightarrow> string \<Rightarrow> errno option \<times> fs" where
  "sys_rename flt fs old new =
     (case flt of
        Some e \<Rightarrow> (Some (Env e), fs)
      | None \<Rightarrow>
          (case fs old of
             None \<Rightarrow> (Some ENOENT, fs)
           | Some n \<Rightarrow>
               if old = new then (None, fs)
               else if (case fs new of None \<Rightarrow> False | Some m \<Rightarrow> i_kind m = Directory)
               then (Some EISDIR, fs)
               else (None, (fs(new \<mapsto> n))(old := None))))"

section \<open>The functions of gauthctl.c\<close>

subsection \<open>Commands and options\<close>

datatype command = CMD_NULL | CMD_ENABLE | CMD_DISABLE | CMD_NEXT

fun command_val :: "command \<Rightarrow> nat" where
  "command_val CMD_NULL = 0"
| "command_val CMD_ENABLE = 1"
| "command_val CMD_DISABLE = 2"
| "command_val CMD_NEXT = 3"

text \<open>What \<^verbatim>\<open>getopt_long\<close> hands to the loop of \<^verbatim>\<open>main\<close>, one value per call until it
  returns -1: the four options of \<^verbatim>\<open>long_opts\<close>, or \<^verbatim>\<open>'?'\<close> for anything else.\<close>

datatype opt = Opt_e string | Opt_d | Opt_h | Opt_V | Opt_other

definition usage :: "bool \<Rightarrow> nat" where
  "usage help = (if help then 0 else 1)"

fun getopt_loop :: "opt list \<Rightarrow> command \<Rightarrow> string option \<Rightarrow> nat + command \<times> string option" where
  "getopt_loop [] cmd path = Inr (cmd, path)"
| "getopt_loop (Opt_e a # os) cmd path = getopt_loop os CMD_ENABLE (Some a)"
| "getopt_loop (Opt_d # os) cmd path = getopt_loop os CMD_DISABLE path"
| "getopt_loop (Opt_h # os) cmd path = Inl (usage True)"
| "getopt_loop (Opt_V # os) cmd path = Inl 0"
| "getopt_loop (Opt_other # os) cmd path = Inl (usage False)"

subsection \<open>get_user, authenticate, get_state_path\<close>

definition get_user :: "env \<Rightarrow> world \<Rightarrow> string option" where
  "get_user env w = passwd env (ruid w)"

definition PAM_SUCCESS :: int where
  "PAM_SUCCESS = 0"

definition authenticate :: "env \<Rightarrow> string \<Rightarrow> bool \<times> event list" where
  "authenticate env username =
     (if pam_start_ret env \<noteq> PAM_SUCCESS then (False, [E_pam_start username])
      else if pam_authenticate_ret env \<noteq> PAM_SUCCESS
        then (False, [E_pam_start username, E_pam_authenticate])
      else if pam_acct_mgmt_ret env \<noteq> PAM_SUCCESS
        then (False, [E_pam_start username, E_pam_authenticate, E_pam_acct_mgmt])
      else if pam_end_ret env \<noteq> PAM_SUCCESS
        then (False, [E_pam_start username, E_pam_authenticate, E_pam_acct_mgmt, E_pam_end])
      else (True, [E_pam_start username, E_pam_authenticate, E_pam_acct_mgmt, E_pam_end]))"

text \<open>A C string in memory: its characters and the terminating zero byte.\<close>

definition cstr :: "string \<Rightarrow> byte list" where
  "cstr s = map (\<lambda>c. word_of_nat (of_char c)) s @ [0]"

text \<open>
  \<^verbatim>\<open>get_state_path\<close>. \<open>statedir\<close> is the build-time macro \<^verbatim>\<open>GAUTH_STATEDIR\<close>, a string
  literal, so \<^verbatim>\<open>sizeof GAUTH_STATEDIR\<close> is its length plus one.
\<close>

definition state_buf_size :: "string \<Rightarrow> string \<Rightarrow> nat" where
  "state_buf_size statedir username = (length statedir + 1) + length username + 1"

definition get_state_path :: "string \<Rightarrow> env \<Rightarrow> string \<Rightarrow> string option" where
  "get_state_path statedir env username =
     (if malloc_path env then Some (statedir @ ''/'' @ username) else None)"

subsection \<open>enable\<close>

text \<open>The size passed to \<^verbatim>\<open>malloc\<close> for \<^verbatim>\<open>tmp_buf\<close>, and the string \<^verbatim>\<open>sprintf\<close> formats
  into it.\<close>

definition tmp_buf_size :: "string \<Rightarrow> nat" where
  "tmp_buf_size state_path = length state_path + 4"

definition tmp_path :: "string \<Rightarrow> string" where
  "tmp_path state_path = state_path @ ''.new''"

text \<open>
  The copy loop. \<open>off\<close> is the file offset of \<^verbatim>\<open>in_fd\<close>; the buffer has 4096 bytes. Only
  the return value -1 of \<^verbatim>\<open>write\<close> is looked at.
\<close>

function copy_loop ::
  "inode \<Rightarrow> nat \<Rightarrow> string \<Rightarrow> rd_ev list \<Rightarrow> wr_ev list \<Rightarrow> world \<Rightarrow> bool run" where
  "copy_loop in_fd off out rds wrs w =
     (let r = sys_read (next_ev rds) in_fd off 4096; rd = fst r; buf = snd r in
      if rd = 0 then (True, w, [E_read 0])
      else if rd = - 1 then (False, w, [E_read (- 1), E_close Out_fd, E_close In_fd])
      else
        let x = sys_write (next_ev wrs) (files w) out buf; wr = fst x;
            w1 = w\<lparr>files := snd x\<rparr>
        in if wr = - 1
           then (False, w1, [E_read rd, E_write (- 1), E_close Out_fd, E_close In_fd])
           else emit [E_read rd, E_write wr]
                  (copy_loop in_fd (off + nat rd) out (tl rds) (tl wrs) w1))"
  by pat_completeness auto
termination
  apply (relation "measure (\<lambda>(in_fd, off, out, rds, wrs, w). length (i_data in_fd) - off)")
   apply simp
  apply (auto simp: sys_read_def split: option.splits rd_ev.splits if_splits)
  done

declare copy_loop.simps [simp del]

text \<open>
  \<^verbatim>\<open>enable\<close>, from the pre-unlink of the temporary name to the end (lines 198 to 261):
  \<open>in_fd\<close> is the descriptor that passed the checks. \<^verbatim>\<open>0600\<close> is \<open>0x180\<close>.
\<close>

definition enable_install :: "env \<Rightarrow> world \<Rightarrow> inode \<Rightarrow> string \<Rightarrow> bool run" where
  "enable_install env w in_fd state_path =
     emit [E_unlink (tmp_path state_path)]
       (let u = sys_unlink (flt_unlink_tmp env) (files w) (tmp_path state_path);
            w1 = w\<lparr>files := snd u\<rparr>
        in if fst u \<noteq> None \<and> fst u \<noteq> Some ENOENT then (False, w1, [E_close In_fd])
           else emit [E_creat (tmp_path state_path)]
             (let c = sys_creat_excl (flt_open_out env) w1 (tmp_path state_path) 0x180;
                  w2 = w1\<lparr>files := snd c\<rparr>
              in if fst c \<noteq> None then (False, w2, [E_close In_fd])
                 else
                   (case copy_loop in_fd 0 (tmp_path state_path) (rd_sched env) (wr_sched env) w2 of
                      (False, w3, t) \<Rightarrow> (False, w3, t)
                    | (True, w3, t) \<Rightarrow>
                        emit (t @ [E_close Out_fd, E_close In_fd,
                                   E_rename (tmp_path state_path) state_path])
                          (let r = sys_rename (flt_rename env) (files w3)
                                     (tmp_path state_path) state_path
                           in if fst r \<noteq> None then (False, w3\<lparr>files := snd r\<rparr>, [])
                              else (True, w3\<lparr>files := snd r\<rparr>, [])))))"

text \<open>\<^verbatim>\<open>enable\<close> as a whole. \<^verbatim>\<open>077\<close> is \<open>0x3F\<close>. The model takes \<^verbatim>\<open>tmp_buf\<close> to hold the
  string that \<^verbatim>\<open>sprintf\<close> formats, \<open>tmp_path state_path\<close>.\<close>

definition enable :: "env \<Rightarrow> world \<Rightarrow> string \<Rightarrow> string \<Rightarrow> bool run" where
  "enable env w state_path path =
     (if \<not> malloc_tmp env then (False, w, [E_malloc (tmp_buf_size state_path)])
      else emit [E_malloc (tmp_buf_size state_path), E_open path]
        (case sys_open_in (flt_open_in env) (files w) path of
           Inl e \<Rightarrow> (False, w, [])
         | Inr in_fd \<Rightarrow>
             emit [E_fstat]
               (case sys_fstat (flt_fstat env) in_fd of
                  Inl e \<Rightarrow> (False, w, [E_close In_fd])
                | Inr st \<Rightarrow>
                    if st_uid st \<noteq> ruid w then (False, w, [E_close In_fd])
                    else if st_mode st AND 0x3F \<noteq> 0 then (False, w, [E_close In_fd])
                    else enable_install env w in_fd state_path)))"

subsection \<open>disable\<close>

definition disable :: "env \<Rightarrow> world \<Rightarrow> string \<Rightarrow> bool run" where
  "disable env w state_path =
     (let u = sys_unlink (flt_unlink env) (files w) state_path in
      if fst u = None \<or> fst u = Some ENOENT
      then (True, w\<lparr>files := snd u\<rparr>, [E_unlink state_path])
      else (False, w\<lparr>files := snd u\<rparr>, [E_unlink state_path]))"

subsection \<open>main\<close>

text \<open>
  How an invocation ends: an exit status, \<^verbatim>\<open>abort()\<close> from a failed \<^verbatim>\<open>assert\<close>, or the use
  of a variable that was never assigned. \<^verbatim>\<open>path\<close> and \<^verbatim>\<open>ret\<close> are declared without
  initialiser, so each is an option here, \<open>None\<close> until assigned.
\<close>

datatype outcome = Exit nat | Abort | Undefined

datatype ctl = Aborted | Unset_path | Ret "bool option"

definition cmd_in_range :: "command \<Rightarrow> bool" where
  "cmd_in_range cmd \<longleftrightarrow>
     command_val cmd > command_val CMD_NULL \<and> command_val cmd < command_val CMD_NEXT"

text \<open>
  \<^verbatim>\<open>main\<close> up to the call of \<^verbatim>\<open>authenticate\<close> (lines 290 to 328). \<open>extra\<close> says that
  \<^verbatim>\<open>optind != argc\<close> after the option loop. The result is the exit status of an early
  return, or the variables live at line 330.
\<close>

definition main_pre ::
  "string \<Rightarrow> env \<Rightarrow> opt list \<Rightarrow> bool \<Rightarrow> world \<Rightarrow>
   (nat + command \<times> string option \<times> string \<times> string) run" where
  "main_pre statedir env opts extra w =
     (case getopt_loop opts CMD_NULL None of
        Inl st \<Rightarrow> (Inl st, w, [])
      | Inr (cmd, path) \<Rightarrow>
          if cmd = CMD_NULL \<or> extra then (Inl (usage False), w, [])
          else
            (case get_user env w of
               None \<Rightarrow> (Inl 1, w\<lparr>cur_umask := 0x3F\<rparr>, [E_umask, E_getpwuid])
             | Some username \<Rightarrow>
                 (case get_state_path statedir env username of
                    None \<Rightarrow>
                      (Inl 1, w\<lparr>cur_umask := 0x3F\<rparr>,
                       [E_umask, E_getpwuid, E_malloc (state_buf_size statedir username)])
                  | Some state_path \<Rightarrow>
                      (Inr (cmd, path, username, state_path), w\<lparr>cur_umask := 0x3F\<rparr>,
                       [E_umask, E_getpwuid, E_malloc (state_buf_size statedir username)]))))"

text \<open>
  The assertion and the switch (lines 333 to 345). \<open>ndebug\<close> says that the program was
  built with \<^verbatim>\<open>NDEBUG\<close>, which turns \<^verbatim>\<open>assert\<close> into nothing: the two impossible cases
  then leave the switch with \<^verbatim>\<open>ret\<close> unassigned.
\<close>

definition dispatch ::
  "bool \<Rightarrow> env \<Rightarrow> command \<Rightarrow> string option \<Rightarrow> string \<Rightarrow> world \<Rightarrow> ctl run" where
  "dispatch ndebug env cmd path state_path w =
     (if \<not> ndebug \<and> \<not> cmd_in_range cmd then (Aborted, w, [])
      else
        (case cmd of
           CMD_ENABLE \<Rightarrow>
             (case path of
                None \<Rightarrow> (Unset_path, w, [])
              | Some p \<Rightarrow>
                  (Ret (Some (fst (enable env w state_path p))),
                   snd (enable env w state_path p)))
         | CMD_DISABLE \<Rightarrow>
             (Ret (Some (fst (disable env w state_path))), snd (disable env w state_path))
         | CMD_NULL \<Rightarrow> (if ndebug then Ret None else Aborted, w, [])
         | CMD_NEXT \<Rightarrow> (if ndebug then Ret None else Aborted, w, [])))"

fun exit_of :: "ctl \<Rightarrow> outcome" where
  "exit_of Aborted = Abort"
| "exit_of Unset_path = Undefined"
| "exit_of (Ret None) = Undefined"
| "exit_of (Ret (Some r)) = Exit (if r then 0 else 1)"

definition main :: "bool \<Rightarrow> string \<Rightarrow> env \<Rightarrow> opt list \<Rightarrow> bool \<Rightarrow> world \<Rightarrow> outcome run" where
  "main ndebug statedir env opts extra w =
     (case main_pre statedir env opts extra w of
        (Inl st, w1, t) \<Rightarrow> (Exit st, w1, t)
      | (Inr (cmd, path, username, state_path), w1, t) \<Rightarrow>
          if \<not> fst (authenticate env username)
          then (Exit 1, w1, t @ snd (authenticate env username))
          else
            emit (t @ snd (authenticate env username))
              (case dispatch ndebug env cmd path state_path w1 of
                 (c, w2, td) \<Rightarrow> (exit_of c, w2, td)))"


subsection \<open>Vocabulary of the statements\<close>

text \<open>The options that select a command, and the calls that go to the file system.\<close>

fun is_action :: "opt \<Rightarrow> bool" where
  "is_action (Opt_e a) = True"
| "is_action Opt_d = True"
| "is_action Opt_h = False"
| "is_action Opt_V = False"
| "is_action Opt_other = False"

fun fs_call :: "event \<Rightarrow> bool" where
  "fs_call (E_open p) = True"
| "fs_call E_fstat = True"
| "fs_call (E_unlink p) = True"
| "fs_call (E_creat p) = True"
| "fs_call (E_read k) = True"
| "fs_call (E_write k) = True"
| "fs_call (E_close d) = True"
| "fs_call (E_rename p q) = True"
| "fs_call E_umask = False"
| "fs_call E_getpwuid = False"
| "fs_call (E_malloc k) = False"
| "fs_call (E_pam_start u) = False"
| "fs_call E_pam_authenticate = False"
| "fs_call E_pam_acct_mgmt = False"
| "fs_call E_pam_end = False"

subsection \<open>Reference inputs\<close>

text \<open>An environment in which every call succeeds and every transfer is complete, with
  one user in the passwd database; and a world with that user's candidate file.\<close>

definition env_ok :: env where
  "env_ok =
     \<lparr>passwd = [1000 \<mapsto> ''alice''], malloc_path = True,
      pam_start_ret = 0, pam_authenticate_ret = 0, pam_acct_mgmt_ret = 0, pam_end_ret = 0,
      malloc_tmp = True, flt_open_in = None, flt_fstat = None, flt_unlink_tmp = None,
      flt_open_out = None, rd_sched = [], wr_sched = [], flt_rename = None,
      flt_unlink = None\<rparr>"

definition cand_ok :: inode where
  "cand_ok = \<lparr>i_kind = Regular, i_uid = 1000, i_mode = 0x180, i_data = [1, 2]\<rparr>"

definition world0 :: world where
  "world0 = \<lparr>files = [''/home/alice/cfg'' \<mapsto> cand_ok], ruid = 1000, euid = 0, cur_umask = 0x12\<rparr>"

text \<open>The same world with a state file already installed, and one whose candidate is
  readable by group and others (mode \<^verbatim>\<open>0644\<close>).\<close>

definition state_old :: inode where
  "state_old = \<lparr>i_kind = Regular, i_uid = 0, i_mode = 0x180, i_data = [9, 9, 9]\<rparr>"

definition world1 :: world where
  "world1 = world0\<lparr>files := (files world0)(''/var/lib/gauth/alice'' \<mapsto> state_old)\<rparr>"

definition cand_open :: inode where
  "cand_open = cand_ok\<lparr>i_mode := 0x1A4\<rparr>"

definition world_open :: world where
  "world_open = world0\<lparr>files := [''/home/alice/cfg'' \<mapsto> cand_open]\<rparr>"

lemmas ref_defs = env_ok_def world0_def cand_ok_def state_old_def world1_def cand_open_def
  world_open_def

lemmas eval_defs = main_def main_pre_def get_user_def get_state_path_def usage_def
  authenticate_def PAM_SUCCESS_def dispatch_def cmd_in_range_def disable_def
  enable_def enable_install_def emit_def Let_def tmp_path_def tmp_buf_size_def
  state_buf_size_def sys_open_in_def sys_fstat_def sys_unlink_def sys_creat_excl_def
  sys_rename_def copy_loop.simps sys_read_def sys_write_def next_ev_def S_IFREG_def


section \<open>Path construction\<close>

lemma length_cstr: "length (cstr s) = length s + 1"
  by (simp add: cstr_def)

lemma state_path_fits:
  "length (cstr (statedir @ ''/'' @ username)) = state_buf_size statedir username"
  by (simp add: length_cstr state_buf_size_def)

lemma tmp_path_neq: "tmp_path sp \<noteq> sp"
  by (simp add: tmp_path_def)

text \<open>
  C7 (the buffer for the staging name holds \<^verbatim>\<open><state_path>.new\<close> with its terminator).
  The source allocates \<^verbatim>\<open>strlen(state_path) + 4\<close> bytes, and \<^verbatim>\<open>sprintf\<close> stores the
  characters of the state path, the four of \<^verbatim>\<open>.new\<close> and the zero byte: for every state
  path the string is one byte longer than the allocation. \<^verbatim>\<open>get_state_path\<close> counts the
  terminator (\<open>state_path_fits\<close>); \<^verbatim>\<open>enable\<close> does not.
\<close>

theorem tmp_buf_one_byte_short:
  "length (cstr (tmp_path state_path)) = tmp_buf_size state_path + 1"
  by (simp add: length_cstr tmp_path_def tmp_buf_size_def)

text \<open>
  C8, as the source has it: for every identity, the empty one too, \<^verbatim>\<open>get_state_path\<close>
  returns \<^verbatim>\<open><statedir>/<identity>\<close> when the allocation succeeds, the string fits the
  buffer it asked for, and it returns \<^verbatim>\<open>NULL\<close> exactly when the allocation fails.
\<close>

theorem get_state_path_result:
  "(malloc_path env \<longrightarrow> get_state_path statedir env username = Some (statedir @ ''/'' @ username))
   \<and> (get_state_path statedir env username = None \<longleftrightarrow> \<not> malloc_path env)
   \<and> (\<forall>p. get_state_path statedir env username = Some p \<longrightarrow>
          length (cstr p) \<le> state_buf_size statedir username)"
  by (simp add: get_state_path_def length_cstr state_buf_size_def)

theorem get_state_path_result_witness:
  "malloc_path env_ok
   \<and> get_state_path ''/var/lib/gauth'' env_ok ''alice'' = Some ''/var/lib/gauth/alice''
   \<and> length (cstr ''/var/lib/gauth/alice'') \<le> state_buf_size ''/var/lib/gauth'' ''alice''
   \<and> get_state_path ''/var/lib/gauth'' env_ok [] = Some ''/var/lib/gauth/''"
  using get_state_path_result [of env_ok "''/var/lib/gauth''" "''alice''"]
    get_state_path_result [of env_ok "''/var/lib/gauth''" "[]"]
  by (simp add: env_ok_def)

text \<open>C8 as written, that the resolver fails only for the empty identity, does not
  hold: with a failed allocation it fails for the identity \<^verbatim>\<open>alice\<close>.\<close>

theorem get_state_path_fails_nonempty:
  "get_state_path ''/var/lib/gauth'' (env_ok\<lparr>malloc_path := False\<rparr>) ''alice'' = None
   \<and> ''alice'' \<noteq> []"
  by (simp add: get_state_path_def)

section \<open>The authentication gate\<close>

text \<open>
  C6: the calls of \<^verbatim>\<open>authenticate\<close> are an initial part of \<^verbatim>\<open>pam_start\<close>,
  \<^verbatim>\<open>pam_authenticate\<close>, \<^verbatim>\<open>pam_acct_mgmt\<close>, \<^verbatim>\<open>pam_end\<close>, in this order, and all four when the
  first three succeed; the gate succeeds exactly when all four return \<^verbatim>\<open>PAM_SUCCESS\<close>, so
  a failing \<^verbatim>\<open>pam_end\<close> fails the gate after a good credential and account check.
\<close>

theorem authenticate_steps:
  "prefix (snd (authenticate env u)) [E_pam_start u, E_pam_authenticate, E_pam_acct_mgmt, E_pam_end]
   \<and> (fst (authenticate env u) \<longleftrightarrow>
        pam_start_ret env = PAM_SUCCESS \<and> pam_authenticate_ret env = PAM_SUCCESS
        \<and> pam_acct_mgmt_ret env = PAM_SUCCESS \<and> pam_end_ret env = PAM_SUCCESS)
   \<and> (pam_start_ret env = PAM_SUCCESS \<and> pam_authenticate_ret env = PAM_SUCCESS
        \<and> pam_acct_mgmt_ret env = PAM_SUCCESS \<longrightarrow>
        snd (authenticate env u) = [E_pam_start u, E_pam_authenticate, E_pam_acct_mgmt, E_pam_end]
        \<and> (pam_end_ret env \<noteq> PAM_SUCCESS \<longrightarrow> \<not> fst (authenticate env u)))"
  by (simp add: authenticate_def)

theorem authenticate_steps_witness:
  "pam_start_ret (env_ok\<lparr>pam_end_ret := 4\<rparr>) = PAM_SUCCESS
   \<and> pam_authenticate_ret (env_ok\<lparr>pam_end_ret := 4\<rparr>) = PAM_SUCCESS
   \<and> pam_acct_mgmt_ret (env_ok\<lparr>pam_end_ret := 4\<rparr>) = PAM_SUCCESS
   \<and> pam_end_ret (env_ok\<lparr>pam_end_ret := 4\<rparr>) \<noteq> PAM_SUCCESS
   \<and> authenticate (env_ok\<lparr>pam_end_ret := 4\<rparr>) ''alice''
       = (False, [E_pam_start ''alice'', E_pam_authenticate, E_pam_acct_mgmt, E_pam_end])"
  using authenticate_steps [of "env_ok\<lparr>pam_end_ret := 4\<rparr>" "''alice''"]
  by (simp add: env_ok_def PAM_SUCCESS_def prod_eq_iff)

lemma authenticate_no_fs:
  "e \<in> set (snd (authenticate env u)) \<Longrightarrow> \<not> fs_call e \<and> (\<forall>k. e \<noteq> E_malloc k)"
  by (auto simp: authenticate_def split: if_splits)

section \<open>The option loop and the way to the gate\<close>

text \<open>What the option loop leaves in \<^verbatim>\<open>cmd\<close> and \<^verbatim>\<open>path\<close>, by induction over the options
  in the order \<^verbatim>\<open>getopt_long\<close> delivers them.\<close>

lemma getopt_loop_cmd:
  "getopt_loop opts c p = Inr (cmd, path) \<Longrightarrow> (c = CMD_ENABLE \<longrightarrow> p \<noteq> None) \<Longrightarrow> c \<noteq> CMD_NEXT \<Longrightarrow>
     cmd \<noteq> CMD_NEXT \<and> (cmd = CMD_ENABLE \<longrightarrow> path \<noteq> None) \<and> (cmd = CMD_NULL \<longrightarrow> c = CMD_NULL \<and> opts = [])"
  by (induction opts c p rule: getopt_loop.induct) auto

lemma getopt_loop_status: "getopt_loop opts c p = Inl st \<Longrightarrow> st = 0 \<or> st = 1"
  by (induction opts c p rule: getopt_loop.induct) (auto simp: usage_def)

lemma getopt_loop_last:
  "getopt_loop opts c p = Inr (cmd, path) \<Longrightarrow> opts \<noteq> [] \<Longrightarrow>
     (\<forall>x\<in>set opts. is_action x)
     \<and> (case last opts of Opt_e a \<Rightarrow> cmd = CMD_ENABLE \<and> path = Some a | _ \<Rightarrow> cmd = CMD_DISABLE)"
proof (induction opts c p rule: getopt_loop.induct)
  case (2 a os cmd0 path0)
  then show ?case by (cases os) auto
next
  case (3 os cmd0 path0)
  then show ?case by (cases os) auto
qed auto

lemma getopt_loop_first_other:
  "\<forall>x\<in>set pre. is_action x \<Longrightarrow> \<not> is_action y \<Longrightarrow>
     getopt_loop (pre @ y # rest) c p = Inl (if y = Opt_other then 1 else 0)"
  by (induction pre c p rule: getopt_loop.induct) (cases y; auto simp: usage_def)+

lemma getopt_loop_actions:
  "\<forall>x\<in>set opts. is_action x \<Longrightarrow> \<exists>cmd path. getopt_loop opts c p = Inr (cmd, path) \<and> (opts = [] \<longrightarrow> cmd = c)"
  by (induction opts c p rule: getopt_loop.induct) auto

text \<open>When \<^verbatim>\<open>main\<close> arrives at line 330, a command was selected, no argument was left
  over, the umask is \<^verbatim>\<open>077\<close>, and the user name and the state path are known.\<close>

lemma main_pre_dispatch:
  assumes "fst (main_pre sd env opts extra w) = Inr (cmd, path, user, sp)"
  shows "(cmd = CMD_ENABLE \<or> cmd = CMD_DISABLE) \<and> (cmd = CMD_ENABLE \<longrightarrow> path \<noteq> None)
     \<and> opts \<noteq> [] \<and> \<not> extra
     \<and> getopt_loop opts CMD_NULL None = Inr (cmd, path)
     \<and> get_user env w = Some user \<and> get_state_path sd env user = Some sp
     \<and> fst (snd (main_pre sd env opts extra w)) = w\<lparr>cur_umask := 0x3F\<rparr>
     \<and> snd (snd (main_pre sd env opts extra w)) = [E_umask, E_getpwuid, E_malloc (state_buf_size sd user)]"
proof (cases "getopt_loop opts CMD_NULL None")
  case (Inl st)
  with assms show ?thesis by (simp add: main_pre_def)
next
  case (Inr cp)
  obtain c p where cp: "cp = (c, p)" by (cases cp)
  from Inr cp assms have pre: "c \<noteq> CMD_NULL" "\<not> extra"
    by (auto simp: main_pre_def split: if_splits)
  from getopt_loop_cmd [of opts CMD_NULL None c p] Inr cp pre
  have c: "c \<noteq> CMD_NEXT" "c = CMD_ENABLE \<longrightarrow> p \<noteq> None" by auto
  from Inr cp pre have ne: "opts \<noteq> []" by (cases opts) auto
  from assms Inr cp pre c ne show ?thesis
    by (cases c) (auto simp: main_pre_def split: option.splits)
qed

lemma main_exit_status:
  "fst (main nd sd env opts extra w) = Exit 0 \<or> fst (main nd sd env opts extra w) = Exit 1"
proof -
  obtain r w1 t where mp: "main_pre sd env opts extra w = (r, w1, t)"
    by (cases "main_pre sd env opts extra w")
  show ?thesis
  proof (cases r)
    case (Inl st)
    have "st = 0 \<or> st = 1"
      using mp Inl getopt_loop_status [of opts CMD_NULL None]
      by (auto simp: main_pre_def usage_def split: sum.splits prod.splits if_splits option.splits)
    then show ?thesis by (auto simp: main_def mp Inl)
  next
    case (Inr x)
    obtain cmd path user sp where x: "x = (cmd, path, user, sp)" by (cases x)
    from main_pre_dispatch [of sd env opts extra w cmd path user sp] mp Inr x
    have "cmd = CMD_ENABLE \<or> cmd = CMD_DISABLE" "cmd = CMD_ENABLE \<longrightarrow> path \<noteq> None"
      by simp_all
    then obtain b where d: "fst (dispatch nd env cmd path sp w1) = Ret (Some b)"
      by (auto simp: dispatch_def cmd_in_range_def)
    then show ?thesis
      by (cases "dispatch nd env cmd path sp w1"; cases b)
        (simp_all add: main_def mp Inr x emit_def)
  qed
qed

lemma main_after_gate:
  assumes "fst (main_pre sd env opts extra w) = Inr (cmd, path, user, sp)"
    and "fst (authenticate env user)"
  shows "cmd = CMD_ENABLE \<Longrightarrow> path = Some a \<Longrightarrow>
           fst (main nd sd env opts extra w)
             = Exit (if fst (enable env (w\<lparr>cur_umask := 0x3F\<rparr>) sp a) then 0 else 1)
           \<and> fst (snd (main nd sd env opts extra w))
             = fst (snd (enable env (w\<lparr>cur_umask := 0x3F\<rparr>) sp a))"
    and "cmd = CMD_DISABLE \<Longrightarrow>
           fst (main nd sd env opts extra w)
             = Exit (if fst (disable env (w\<lparr>cur_umask := 0x3F\<rparr>) sp) then 0 else 1)
           \<and> fst (snd (main nd sd env opts extra w))
             = fst (snd (disable env (w\<lparr>cur_umask := 0x3F\<rparr>) sp))"
proof -
  obtain r w1 t where mp: "main_pre sd env opts extra w = (r, w1, t)"
    by (cases "main_pre sd env opts extra w")
  with assms(1) main_pre_dispatch [OF assms(1)]
  have r: "r = Inr (cmd, path, user, sp)" and w1: "w1 = w\<lparr>cur_umask := 0x3F\<rparr>"
    by simp_all
  have m: "main nd sd env opts extra w
      = emit (t @ snd (authenticate env user))
          (case dispatch nd env cmd path sp w1 of (c, w2, td) \<Rightarrow> (exit_of c, w2, td))"
    using assms(2) by (simp add: main_def mp r)
  show "cmd = CMD_ENABLE \<Longrightarrow> path = Some a \<Longrightarrow>
           fst (main nd sd env opts extra w)
             = Exit (if fst (enable env (w\<lparr>cur_umask := 0x3F\<rparr>) sp a) then 0 else 1)
           \<and> fst (snd (main nd sd env opts extra w))
             = fst (snd (enable env (w\<lparr>cur_umask := 0x3F\<rparr>) sp a))"
    by (simp add: m w1 emit_def dispatch_def cmd_in_range_def case_prod_beta)
  show "cmd = CMD_DISABLE \<Longrightarrow>
           fst (main nd sd env opts extra w)
             = Exit (if fst (disable env (w\<lparr>cur_umask := 0x3F\<rparr>) sp) then 0 else 1)
           \<and> fst (snd (main nd sd env opts extra w))
             = fst (snd (disable env (w\<lparr>cur_umask := 0x3F\<rparr>) sp))"
    by (simp add: m w1 emit_def dispatch_def cmd_in_range_def case_prod_beta)
qed

section \<open>The gate comes first\<close>

text \<open>
  C1: when \<^verbatim>\<open>main\<close> gets as far as the gate and \<^verbatim>\<open>authenticate\<close> returns false, the
  invocation ends with status 1, the files are what they were, and the calls made are
  those before the gate followed by the PAM calls: no call to the file system, and not
  the allocation that \<^verbatim>\<open>enable\<close> starts with, so neither \<^verbatim>\<open>enable\<close> nor \<^verbatim>\<open>disable\<close> ran.
\<close>

theorem auth_failure_stops_main:
  assumes "fst (main_pre sd env opts extra w) = Inr (cmd, path, user, sp)"
    and "\<not> fst (authenticate env user)"
  shows "fst (main nd sd env opts extra w) = Exit 1
    \<and> files (fst (snd (main nd sd env opts extra w))) = files w
    \<and> snd (snd (main nd sd env opts extra w))
        = [E_umask, E_getpwuid, E_malloc (state_buf_size sd user)] @ snd (authenticate env user)
    \<and> (\<forall>e\<in>set (snd (snd (main nd sd env opts extra w))).
          \<not> fs_call e \<and> e \<noteq> E_malloc (tmp_buf_size sp))"
proof -
  obtain r w1 t where mp: "main_pre sd env opts extra w = (r, w1, t)"
    by (cases "main_pre sd env opts extra w")
  from main_pre_dispatch [OF assms(1)] mp assms(1)
  have r: "r = Inr (cmd, path, user, sp)"
    and w1: "w1 = w\<lparr>cur_umask := 0x3F\<rparr>"
    and t: "t = [E_umask, E_getpwuid, E_malloc (state_buf_size sd user)]"
    and sp: "get_state_path sd env user = Some sp"
    by simp_all
  from sp have "sp = sd @ ''/'' @ user"
    by (simp add: get_state_path_def split: if_splits)
  then have sz: "state_buf_size sd user \<noteq> tmp_buf_size sp"
    by (simp add: state_buf_size_def tmp_buf_size_def)
  have m: "main nd sd env opts extra w = (Exit 1, w1, t @ snd (authenticate env user))"
    using assms(2) by (simp add: main_def mp r)
  show ?thesis
    using authenticate_no_fs [of _ env user] sz by (auto simp: m w1 t)
qed

theorem auth_failure_stops_main_witness:
  "fst (main_pre ''/var/lib/gauth'' (env_ok\<lparr>pam_authenticate_ret := 7\<rparr>)
          [Opt_e ''/home/alice/cfg''] False world0)
     = Inr (CMD_ENABLE, Some ''/home/alice/cfg'', ''alice'', ''/var/lib/gauth/alice'')
   \<and> \<not> fst (authenticate (env_ok\<lparr>pam_authenticate_ret := 7\<rparr>) ''alice'')
   \<and> fst (main False ''/var/lib/gauth'' (env_ok\<lparr>pam_authenticate_ret := 7\<rparr>)
          [Opt_e ''/home/alice/cfg''] False world0) = Exit 1
   \<and> files (fst (snd (main False ''/var/lib/gauth'' (env_ok\<lparr>pam_authenticate_ret := 7\<rparr>)
          [Opt_e ''/home/alice/cfg''] False world0))) = files world0
   \<and> snd (snd (main False ''/var/lib/gauth'' (env_ok\<lparr>pam_authenticate_ret := 7\<rparr>)
          [Opt_e ''/home/alice/cfg''] False world0))
       = [E_umask, E_getpwuid, E_malloc 21, E_pam_start ''alice'', E_pam_authenticate]"
proof -
  have h1: "fst (main_pre ''/var/lib/gauth'' (env_ok\<lparr>pam_authenticate_ret := 7\<rparr>)
          [Opt_e ''/home/alice/cfg''] False world0)
     = Inr (CMD_ENABLE, Some ''/home/alice/cfg'', ''alice'', ''/var/lib/gauth/alice'')"
    by (simp add: main_pre_def get_user_def get_state_path_def ref_defs)
  have h2: "\<not> fst (authenticate (env_ok\<lparr>pam_authenticate_ret := 7\<rparr>) ''alice'')"
    by (simp add: authenticate_def PAM_SUCCESS_def ref_defs)
  have h3: "snd (authenticate (env_ok\<lparr>pam_authenticate_ret := 7\<rparr>) ''alice'')
      = [E_pam_start ''alice'', E_pam_authenticate]"
    by (simp add: authenticate_def PAM_SUCCESS_def ref_defs)
  show ?thesis
    using h1 h2 auth_failure_stops_main [OF h1 h2, of False]
    by (simp add: h3 state_buf_size_def)
qed

section \<open>The dispatch\<close>

text \<open>
  C10: whenever \<^verbatim>\<open>main\<close> is past the checks before the gate, and so whenever the switch
  is reached, \<^verbatim>\<open>cmd\<close> is \<^verbatim>\<open>CMD_ENABLE\<close> or \<^verbatim>\<open>CMD_DISABLE\<close>, the assertion
  \<^verbatim>\<open>cmd > CMD_NULL && cmd < CMD_NEXT\<close> holds, \<^verbatim>\<open>path\<close> is assigned when the command is
  \<^verbatim>\<open>CMD_ENABLE\<close>, and the switch assigns \<^verbatim>\<open>ret\<close>, with or without \<^verbatim>\<open>NDEBUG\<close>; every
  invocation ends with exit status 0 or 1, never in \<^verbatim>\<open>abort\<close> nor in the use of an
  unassigned variable.
\<close>

theorem dispatch_command_valid:
  "(fst (main_pre sd env opts extra w) = Inr (cmd, path, user, sp) \<longrightarrow>
      (cmd = CMD_ENABLE \<or> cmd = CMD_DISABLE) \<and> cmd_in_range cmd
      \<and> (cmd = CMD_ENABLE \<longrightarrow> path \<noteq> None)
      \<and> (\<exists>r. fst (dispatch nd env cmd path sp w1) = Ret (Some r)))
   \<and> (fst (main nd sd env opts extra w) = Exit 0 \<or> fst (main nd sd env opts extra w) = Exit 1)"
proof -
  have "(cmd = CMD_ENABLE \<or> cmd = CMD_DISABLE) \<and> cmd_in_range cmd
      \<and> (cmd = CMD_ENABLE \<longrightarrow> path \<noteq> None)
      \<and> (\<exists>r. fst (dispatch nd env cmd path sp w1) = Ret (Some r))"
    if "fst (main_pre sd env opts extra w) = Inr (cmd, path, user, sp)"
    using main_pre_dispatch [OF that]
    by (auto simp: dispatch_def cmd_in_range_def)
  then show ?thesis using main_exit_status [of nd sd env opts extra w] by blast
qed

theorem dispatch_command_valid_witness:
  "fst (main_pre ''/var/lib/gauth'' env_ok [Opt_d] False world0)
     = Inr (CMD_DISABLE, None, ''alice'', ''/var/lib/gauth/alice'')
   \<and> cmd_in_range CMD_DISABLE
   \<and> fst (dispatch False env_ok CMD_DISABLE None ''/var/lib/gauth/alice'' world0) = Ret (Some True)
   \<and> fst (main False ''/var/lib/gauth'' env_ok [Opt_d] False world0) = Exit 0"
proof -
  have h1: "fst (main_pre ''/var/lib/gauth'' env_ok [Opt_d] False world0)
     = Inr (CMD_DISABLE, None, ''alice'', ''/var/lib/gauth/alice'')"
    by (simp add: main_pre_def get_user_def get_state_path_def ref_defs)
  have h2: "fst (main False ''/var/lib/gauth'' env_ok [Opt_d] False world0) = Exit 0"
    by (simp add: main_def main_pre_def get_user_def get_state_path_def authenticate_def
        PAM_SUCCESS_def dispatch_def cmd_in_range_def disable_def sys_unlink_def emit_def ref_defs)
  have h3: "fst (dispatch False env_ok CMD_DISABLE None ''/var/lib/gauth/alice'' world0)
      = Ret (Some True)"
    by (simp add: dispatch_def cmd_in_range_def disable_def sys_unlink_def ref_defs)
  show ?thesis
    using h1 h2 h3 dispatch_command_valid [of "''/var/lib/gauth''" env_ok "[Opt_d]" False world0
        CMD_DISABLE None "''alice''" "''/var/lib/gauth/alice''" False world0]
    by simp
qed

text \<open>
  C9, as the source has it. The first option that is neither \<^verbatim>\<open>-e\<close> nor \<^verbatim>\<open>-d\<close> ends the
  invocation before anything is touched: with status 1 when it is unknown, with status 0
  when it is \<^verbatim>\<open>-h\<close> or \<^verbatim>\<open>-V\<close>. With only \<^verbatim>\<open>-e\<close> and \<^verbatim>\<open>-d\<close> options, an invocation that has
  none of them, or has arguments left over, ends with status 1 and nothing touched.
  Otherwise the command is the one named by the last option (a later \<^verbatim>\<open>-e\<close> or \<^verbatim>\<open>-d\<close>
  replaces an earlier one), and once the gate has passed \<^verbatim>\<open>main\<close> runs that one function
  and exits with its result.
\<close>

theorem main_action_selection:
  "((\<forall>x\<in>set pre. is_action x) \<and> \<not> is_action y \<longrightarrow>
      main nd sd env (pre @ y # rest) extra w = (Exit (if y = Opt_other then 1 else 0), w, []))
   \<and> ((\<forall>x\<in>set opts. is_action x) \<and> (opts = [] \<or> extra) \<longrightarrow>
        main nd sd env opts extra w = (Exit 1, w, []))
   \<and> (fst (main_pre sd env opts extra w) = Inr (cmd, path, user, sp) \<longrightarrow>
        opts \<noteq> [] \<and> (\<forall>x\<in>set opts. is_action x)
        \<and> (case last opts of
              Opt_e a \<Rightarrow>
                cmd = CMD_ENABLE \<and> path = Some a
                \<and> (fst (authenticate env user) \<longrightarrow>
                     fst (main nd sd env opts extra w)
                       = Exit (if fst (enable env (w\<lparr>cur_umask := 0x3F\<rparr>) sp a) then 0 else 1)
                     \<and> fst (snd (main nd sd env opts extra w))
                       = fst (snd (enable env (w\<lparr>cur_umask := 0x3F\<rparr>) sp a)))
            | _ \<Rightarrow>
                cmd = CMD_DISABLE
                \<and> (fst (authenticate env user) \<longrightarrow>
                     fst (main nd sd env opts extra w)
                       = Exit (if fst (disable env (w\<lparr>cur_umask := 0x3F\<rparr>) sp) then 0 else 1)
                     \<and> fst (snd (main nd sd env opts extra w))
                       = fst (snd (disable env (w\<lparr>cur_umask := 0x3F\<rparr>) sp)))))"
proof (intro conjI impI)
  assume "(\<forall>x\<in>set pre. is_action x) \<and> \<not> is_action y"
  then show "main nd sd env (pre @ y # rest) extra w = (Exit (if y = Opt_other then 1 else 0), w, [])"
    using getopt_loop_first_other [of pre y rest CMD_NULL None]
    by (simp add: main_def main_pre_def)
next
  assume a: "(\<forall>x\<in>set opts. is_action x) \<and> (opts = [] \<or> extra)"
  then obtain c p where "getopt_loop opts CMD_NULL None = Inr (c, p)" "opts = [] \<longrightarrow> c = CMD_NULL"
    using getopt_loop_actions [of opts CMD_NULL None] by blast
  with a show "main nd sd env opts extra w = (Exit 1, w, [])"
    by (auto simp: main_def main_pre_def usage_def)
next
  assume a: "fst (main_pre sd env opts extra w) = Inr (cmd, path, user, sp)"
  note d = main_pre_dispatch [OF a]
  from d show "opts \<noteq> []" by simp
  from d getopt_loop_last [of opts CMD_NULL None cmd path]
  have l: "(\<forall>x\<in>set opts. is_action x)
     \<and> (case last opts of Opt_e a \<Rightarrow> cmd = CMD_ENABLE \<and> path = Some a | _ \<Rightarrow> cmd = CMD_DISABLE)"
    by simp
  then show "\<forall>x\<in>set opts. is_action x" by simp
  from l d show "case last opts of
      Opt_e a \<Rightarrow>
        cmd = CMD_ENABLE \<and> path = Some a
        \<and> (fst (authenticate env user) \<longrightarrow>
             fst (main nd sd env opts extra w)
               = Exit (if fst (enable env (w\<lparr>cur_umask := 0x3F\<rparr>) sp a) then 0 else 1)
             \<and> fst (snd (main nd sd env opts extra w))
               = fst (snd (enable env (w\<lparr>cur_umask := 0x3F\<rparr>) sp a)))
    | _ \<Rightarrow>
        cmd = CMD_DISABLE
        \<and> (fst (authenticate env user) \<longrightarrow>
             fst (main nd sd env opts extra w)
               = Exit (if fst (disable env (w\<lparr>cur_umask := 0x3F\<rparr>) sp) then 0 else 1)
             \<and> fst (snd (main nd sd env opts extra w))
               = fst (snd (disable env (w\<lparr>cur_umask := 0x3F\<rparr>) sp)))"
    using main_after_gate [OF a] by (cases "last opts") auto
qed

theorem main_action_selection_witness:
  "is_action Opt_d \<and> \<not> is_action Opt_h
   \<and> main False ''/var/lib/gauth'' env_ok ([Opt_d] @ Opt_h # []) False world0 = (Exit 0, world0, [])
   \<and> main False ''/var/lib/gauth'' env_ok [] False world0 = (Exit 1, world0, [])
   \<and> fst (main_pre ''/var/lib/gauth'' env_ok [Opt_e ''/home/alice/cfg'', Opt_d] False world0)
       = Inr (CMD_DISABLE, Some ''/home/alice/cfg'', ''alice'', ''/var/lib/gauth/alice'')
   \<and> fst (authenticate env_ok ''alice'')
   \<and> fst (main False ''/var/lib/gauth'' env_ok [Opt_e ''/home/alice/cfg'', Opt_d] False world0)
       = Exit (if fst (disable env_ok (world0\<lparr>cur_umask := 0x3F\<rparr>) ''/var/lib/gauth/alice'')
               then 0 else 1)"
proof -
  have h1: "fst (main_pre ''/var/lib/gauth'' env_ok [Opt_e ''/home/alice/cfg'', Opt_d] False world0)
       = Inr (CMD_DISABLE, Some ''/home/alice/cfg'', ''alice'', ''/var/lib/gauth/alice'')"
    by (simp add: main_pre_def get_user_def get_state_path_def ref_defs)
  have h2: "fst (authenticate env_ok ''alice'')"
    by (simp add: authenticate_def PAM_SUCCESS_def ref_defs)
  show ?thesis
    using h1 h2
      main_action_selection [of "[Opt_d]" Opt_h False "''/var/lib/gauth''" env_ok "[]" False world0
        "[]" CMD_NULL None "[]" "[]"]
      main_action_selection [of "[]" Opt_h False "''/var/lib/gauth''" env_ok "[]" False world0
        "[Opt_e ''/home/alice/cfg'', Opt_d]" CMD_DISABLE "Some ''/home/alice/cfg''" "''alice''"
        "''/var/lib/gauth/alice''"]
    by simp
qed

text \<open>C9 as written fails for \<^verbatim>\<open>gauthctl --help\<close>: the invocation selects neither command,
  and its exit status is 0, as the comment on \<^verbatim>\<open>usage\<close> says.\<close>

theorem main_help_exits_zero:
  "\<not> is_action Opt_h
   \<and> main False ''/var/lib/gauth'' env_ok [Opt_h] False world0 = (Exit 0, world0, [])
   \<and> fst (main False ''/var/lib/gauth'' env_ok [Opt_h] False world0) \<noteq> Exit 1"
  by (simp add: main_def main_pre_def usage_def)

section \<open>disable\<close>

lemma world_drop_absent: "files w sp = None \<Longrightarrow> w\<lparr>files := (files w)(sp := None)\<rparr> = w"
proof -
  assume "files w sp = None"
  then have "(files w)(sp := None) = files w" by (simp add: fun_upd_idem)
  then show ?thesis by simp
qed

text \<open>
  C5: \<^verbatim>\<open>disable\<close> returns true exactly when \<^verbatim>\<open>unlink\<close> succeeded or failed with
  \<^verbatim>\<open>ENOENT\<close>. When the environment raises no error and the state path is not a
  directory, whether a state file exists or not, \<^verbatim>\<open>disable\<close> returns true and leaves no
  state file, and a second \<^verbatim>\<open>disable\<close> returns true again and leaves the same world: two
  calls in a row both succeed. On a state path that has no file \<^verbatim>\<open>disable\<close> succeeds and
  changes nothing; after any successful \<^verbatim>\<open>disable\<close> the state file is gone and a second
  one succeeds; and when \<^verbatim>\<open>unlink\<close> fails with an error other than \<^verbatim>\<open>ENOENT\<close>,
  \<^verbatim>\<open>disable\<close> returns false and changes nothing.
\<close>

theorem disable_idempotent:
  "(fst (disable env w sp) \<longleftrightarrow>
      fst (sys_unlink (flt_unlink env) (files w) sp) = None
      \<or> fst (sys_unlink (flt_unlink env) (files w) sp) = Some ENOENT)
   \<and> (flt_unlink env = None \<and> (\<forall>n. files w sp = Some n \<longrightarrow> i_kind n \<noteq> Directory) \<longrightarrow>
        disable env w sp = (True, w\<lparr>files := (files w)(sp := None)\<rparr>, [E_unlink sp])
        \<and> (flt_unlink env' = None \<longrightarrow>
             disable env' (fst (snd (disable env w sp))) sp
               = (True, w\<lparr>files := (files w)(sp := None)\<rparr>, [E_unlink sp])))
   \<and> (files w sp = None \<and> flt_unlink env = None \<longrightarrow> disable env w sp = (True, w, [E_unlink sp]))
   \<and> (fst (disable env w sp) \<longrightarrow>
        files (fst (snd (disable env w sp))) sp = None
        \<and> (flt_unlink env' = None \<longrightarrow>
             disable env' (fst (snd (disable env w sp))) sp
               = (True, fst (snd (disable env w sp)), [E_unlink sp])))
   \<and> (fst (sys_unlink (flt_unlink env) (files w) sp) = Some e \<and> e \<noteq> ENOENT \<longrightarrow>
        disable env w sp = (False, w, [E_unlink sp]))"
proof -
  have a: "fst (disable env w sp) \<longleftrightarrow>
      fst (sys_unlink (flt_unlink env) (files w) sp) = None
      \<or> fst (sys_unlink (flt_unlink env) (files w) sp) = Some ENOENT"
    by (simp add: disable_def Let_def)
  have b: "disable env w sp = (True, w\<lparr>files := (files w)(sp := None)\<rparr>, [E_unlink sp])
        \<and> (flt_unlink env' = None \<longrightarrow>
             disable env' (fst (snd (disable env w sp))) sp
               = (True, w\<lparr>files := (files w)(sp := None)\<rparr>, [E_unlink sp]))"
    if "flt_unlink env = None" "\<forall>n. files w sp = Some n \<longrightarrow> i_kind n \<noteq> Directory"
  proof -
    have 1: "disable env w sp = (True, w\<lparr>files := (files w)(sp := None)\<rparr>, [E_unlink sp])"
      using that
      by (cases "files w sp") (simp_all add: disable_def sys_unlink_def Let_def world_drop_absent)
    have 2: "disable env' (w\<lparr>files := (files w)(sp := None)\<rparr>) sp
        = (True, w\<lparr>files := (files w)(sp := None)\<rparr>, [E_unlink sp])"
      if "flt_unlink env' = None"
      using that by (simp add: disable_def sys_unlink_def Let_def)
    from 1 2 show ?thesis by simp
  qed
  have c: "(files w sp = None \<and> flt_unlink env = None \<longrightarrow> disable env w sp = (True, w, [E_unlink sp]))
   \<and> (fst (disable env w sp) \<longrightarrow>
        files (fst (snd (disable env w sp))) sp = None
        \<and> (flt_unlink env' = None \<longrightarrow>
             disable env' (fst (snd (disable env w sp))) sp
               = (True, fst (snd (disable env w sp)), [E_unlink sp])))
   \<and> (fst (sys_unlink (flt_unlink env) (files w) sp) = Some e \<and> e \<noteq> ENOENT \<longrightarrow>
        disable env w sp = (False, w, [E_unlink sp]))"
    by (auto simp: disable_def sys_unlink_def Let_def split: option.splits if_splits)
  from a b c show ?thesis by blast
qed

theorem disable_idempotent_witness:
  "flt_unlink env_ok = None
   \<and> files world1 ''/var/lib/gauth/alice'' = Some state_old
   \<and> i_kind state_old \<noteq> Directory
   \<and> disable env_ok world1 ''/var/lib/gauth/alice''
       = (True, world0, [E_unlink ''/var/lib/gauth/alice''])
   \<and> disable env_ok (fst (snd (disable env_ok world1 ''/var/lib/gauth/alice''))) ''/var/lib/gauth/alice''
       = (True, world0, [E_unlink ''/var/lib/gauth/alice''])
   \<and> files world0 ''/var/lib/gauth/alice'' = None
   \<and> disable env_ok world0 ''/var/lib/gauth/alice'' = (True, world0, [E_unlink ''/var/lib/gauth/alice''])
   \<and> fst (sys_unlink (flt_unlink (env_ok\<lparr>flt_unlink := Some EACCES\<rparr>)) (files world1)
            ''/var/lib/gauth/alice'') = Some (Env EACCES)
   \<and> Env EACCES \<noteq> ENOENT
   \<and> disable (env_ok\<lparr>flt_unlink := Some EACCES\<rparr>) world1 ''/var/lib/gauth/alice''
        = (False, world1, [E_unlink ''/var/lib/gauth/alice''])"
proof -
  have h0: "flt_unlink env_ok = None"
    by (simp add: ref_defs)
  have h1: "files world1 ''/var/lib/gauth/alice'' = Some state_old" "i_kind state_old \<noteq> Directory"
    "files world0 ''/var/lib/gauth/alice'' = None"
    by (simp_all add: ref_defs)
  then have h2: "\<forall>n. files world1 ''/var/lib/gauth/alice'' = Some n \<longrightarrow> i_kind n \<noteq> Directory"
    by simp
  have h3: "fst (sys_unlink (flt_unlink (env_ok\<lparr>flt_unlink := Some EACCES\<rparr>)) (files world1)
            ''/var/lib/gauth/alice'') = Some (Env EACCES) \<and> Env EACCES \<noteq> ENOENT"
    by (simp add: sys_unlink_def)
  have h4: "world1\<lparr>files := (files world1)(''/var/lib/gauth/alice'' := None)\<rparr> = world0"
    by (simp add: ref_defs fun_eq_iff)
  show ?thesis
    using h0 h1 h2 h3
      disable_idempotent [of env_ok world1 "''/var/lib/gauth/alice''" env_ok "Env EACCES"]
      disable_idempotent [of env_ok world0 "''/var/lib/gauth/alice''" env_ok "Env EACCES"]
      disable_idempotent [of "env_ok\<lparr>flt_unlink := Some EACCES\<rparr>" world1 "''/var/lib/gauth/alice''"
        env_ok "Env EACCES"]
    by (simp add: h4 world_drop_absent)
qed

section \<open>enable\<close>

subsection \<open>What the system calls leave alone\<close>

lemma kind_bits_low: "(kind_bits k OR m) AND 0x3F = m AND 0x3F"
  by (cases k) (simp_all add: S_IFREG_def S_IFDIR_def S_IFLNK_def bit.conj_disj_distrib2)

lemma sys_write_other: "p \<noteq> q \<Longrightarrow> snd (sys_write ev fs p buf) q = fs q"
  by (simp add: sys_write_def split: option.splits wr_ev.splits)

lemma sys_unlink_other: "p \<noteq> q \<Longrightarrow> snd (sys_unlink f fs p) q = fs q"
  by (simp add: sys_unlink_def split: option.splits)

lemma sys_creat_excl_other: "p \<noteq> q \<Longrightarrow> snd (sys_creat_excl f w p m) q = files w q"
  by (simp add: sys_creat_excl_def split: option.splits)

lemma sys_rename_failed: "fst (sys_rename f fs a b) \<noteq> None \<Longrightarrow> snd (sys_rename f fs a b) = fs"
  by (simp add: sys_rename_def split: option.splits if_splits)

lemma sys_rename_done:
  "fst (sys_rename f fs a b) = None \<Longrightarrow> a \<noteq> b \<Longrightarrow> fs a = Some n \<Longrightarrow>
     snd (sys_rename f fs a b) = (fs(b \<mapsto> n))(a := None)"
  by (simp add: sys_rename_def split: option.splits if_splits)

lemma sys_creat_excl_done:
  "fst (sys_creat_excl f w p m) = None \<Longrightarrow>
     snd (sys_creat_excl f w p m)
       = (files w)(p \<mapsto> \<lparr>i_kind = Regular, i_uid = euid w,
                          i_mode = m AND NOT (cur_umask w), i_data = []\<rparr>)"
  by (simp add: sys_creat_excl_def split: option.splits if_splits)

lemma sys_read_eof:
  "fst (sys_read ev n off cnt) = 0 \<Longrightarrow> 0 < cnt \<Longrightarrow> drop off (i_data n) = []"
  by (auto simp: sys_read_def split: option.splits rd_ev.splits if_splits)

lemma sys_read_buf:
  "fst (sys_read ev n off cnt) \<noteq> - 1 \<Longrightarrow>
     snd (sys_read ev n off cnt) @ drop (off + nat (fst (sys_read ev n off cnt))) (i_data n)
       = drop off (i_data n)"
proof -
  have a: "take k xs @ drop (off + length (take k xs)) ys = xs"
    if "xs = drop off ys" for k and xs ys :: "byte list"
  proof -
    have "drop (off + length (take k xs)) ys = drop (length (take k xs)) xs"
      using that by (simp add: add.commute)
    also have "\<dots> = drop k xs" by (simp add: min_def)
    finally show ?thesis by simp
  qed
  have b: "take k (take c xs) = take (min k c) xs" for k c and xs :: "byte list"
    by simp
  assume "fst (sys_read ev n off cnt) \<noteq> - 1"
  then show ?thesis
    unfolding sys_read_def
    by (auto simp del: take_take length_take simp: b a [OF refl]
        split: option.splits rd_ev.splits if_splits)
qed

lemma sys_write_full:
  "fs p = Some n \<Longrightarrow> sys_write None fs p buf = (int (length buf), fs(p \<mapsto> n\<lparr>i_data := i_data n @ buf\<rparr>))"
  by (simp add: sys_write_def)

subsection \<open>The copy loop\<close>

text \<open>By computation induction: the loop writes to the temporary name only, it fails
  exactly when a \<^verbatim>\<open>read\<close> or a \<^verbatim>\<open>write\<close> returned -1, it ends well only after a
  \<^verbatim>\<open>read\<close> returned 0, and when no \<^verbatim>\<open>write\<close> is cut short it appends to the output what
  was left of the input.\<close>

lemma copy_loop_other:
  "out \<noteq> q \<Longrightarrow> files (fst (snd (copy_loop in_fd off out rds wrs w))) q = files w q"
proof (induction in_fd off out rds wrs w rule: copy_loop.induct)
  case (1 in_fd off out rds wrs w)
  show ?case
    using 1 by (subst copy_loop.simps) (simp add: Let_def emit_def sys_write_other)
qed

lemma copy_loop_failure_events:
  "fst (copy_loop in_fd off out rds wrs w) \<longleftrightarrow>
     E_read (- 1) \<notin> set (snd (snd (copy_loop in_fd off out rds wrs w)))
     \<and> E_write (- 1) \<notin> set (snd (snd (copy_loop in_fd off out rds wrs w)))"
proof (induction in_fd off out rds wrs w rule: copy_loop.induct)
  case (1 in_fd off out rds wrs w)
  show ?case
    using 1 by (subst (1 2 3) copy_loop.simps) (simp add: Let_def emit_def)
qed

lemma copy_loop_eof:
  "fst (copy_loop in_fd off out rds wrs w) \<Longrightarrow>
     E_read 0 \<in> set (snd (snd (copy_loop in_fd off out rds wrs w)))"
proof (induction in_fd off out rds wrs w rule: copy_loop.induct)
  case (1 in_fd off out rds wrs w)
  from "1.prems" show ?case
    using "1.IH" by (subst copy_loop.simps, subst (asm) copy_loop.simps) (simp add: Let_def emit_def split: if_splits)
qed

lemma copy_loop_complete:
  assumes "fst (copy_loop in_fd off out rds [] w)" and "files w out = Some n"
  shows "files (fst (snd (copy_loop in_fd off out rds [] w))) out
           = Some (n\<lparr>i_data := i_data n @ drop off (i_data in_fd)\<rparr>)"
  using assms
proof (induction in_fd off out rds "[] :: wr_ev list" w arbitrary: n rule: copy_loop.induct)
  case (1 in_fd off out rds w)
  note IH = "1.hyps" [OF refl refl refl _ _ refl refl refl]
  let ?r = "sys_read (next_ev rds) in_fd off 4096"
  show ?case
  proof (cases "fst ?r = 0")
    case True
    then have "drop off (i_data in_fd) = []" by (rule sys_read_eof) simp
    with True "1.prems" show ?thesis
      by (subst copy_loop.simps) (simp add: Let_def)
  next
    case False
    from "1.prems"(1) False have ne: "fst ?r \<noteq> - 1"
      by (subst (asm) copy_loop.simps) (auto simp: Let_def split: if_splits)
    have wr: "sys_write (next_ev []) (files w) out (snd ?r)
        = (int (length (snd ?r)), (files w)(out \<mapsto> n\<lparr>i_data := i_data n @ snd ?r\<rparr>))"
      using "1.prems"(2) by (simp add: next_ev_def sys_write_full)
    let ?w1 = "w\<lparr>files := (files w)(out \<mapsto> n\<lparr>i_data := i_data n @ snd ?r\<rparr>)\<rparr>"
    have step: "copy_loop in_fd off out rds [] w
        = emit [E_read (fst ?r), E_write (int (length (snd ?r)))]
            (copy_loop in_fd (off + nat (fst ?r)) out (tl rds) [] ?w1)"
      using False ne by (subst copy_loop.simps) (simp add: Let_def wr)
    from "1.prems"(1) have ok: "fst (copy_loop in_fd (off + nat (fst ?r)) out (tl rds) [] ?w1)"
      by (simp add: step emit_def)
    have "files (fst (snd (copy_loop in_fd (off + nat (fst ?r)) out (tl rds) [] ?w1))) out
        = Some ((n\<lparr>i_data := i_data n @ snd ?r\<rparr>)
                 \<lparr>i_data := i_data (n\<lparr>i_data := i_data n @ snd ?r\<rparr>)
                             @ drop (off + nat (fst ?r)) (i_data in_fd)\<rparr>)"
      using IH [of "n\<lparr>i_data := i_data n @ snd ?r\<rparr>"] False ne ok
      by (simp add: wr)
    then show ?thesis
      using sys_read_buf [OF ne] by (simp add: step emit_def)
  qed
qed

subsection \<open>The checks on the candidate\<close>

text \<open>\<^verbatim>\<open>enable\<close> either stops at a check, with the world as it was, or goes on to the
  installation with a descriptor that passed every check.\<close>

lemma enable_cases:
  "(\<not> fst (enable env w sp path) \<and> fst (snd (enable env w sp path)) = w
      \<and> prefix (snd (snd (enable env w sp path)))
           [E_malloc (tmp_buf_size sp), E_open path, E_fstat, E_close In_fd])
   \<or> (\<exists>in_fd. files w path = Some in_fd \<and> i_kind in_fd \<noteq> Symlink \<and> i_uid in_fd = ruid w
         \<and> i_mode in_fd AND 0x3F = 0
         \<and> enable env w sp path
             = emit [E_malloc (tmp_buf_size sp), E_open path, E_fstat]
                 (enable_install env w in_fd sp))"
  by (auto simp: enable_def emit_def sys_open_in_def sys_fstat_def kind_bits_low
      split: option.splits sum.splits if_splits)

text \<open>
  C3: a candidate that is a symlink, or is not owned by the calling user, or has a
  permission bit for group or others, makes \<^verbatim>\<open>enable\<close> return false with the world
  exactly as it was; the calls made are an initial part of \<^verbatim>\<open>malloc\<close>, \<^verbatim>\<open>open\<close>,
  \<^verbatim>\<open>fstat\<close>, \<^verbatim>\<open>close\<close>, so no \<^verbatim>\<open>read\<close> and no \<^verbatim>\<open>write\<close> took place.
\<close>

theorem enable_rejects_insecure_candidate:
  assumes "files w path = Some n"
    and "i_kind n = Symlink \<or> i_uid n \<noteq> ruid w \<or> i_mode n AND 0x3F \<noteq> 0"
  shows "fst (enable env w sp path) = False
    \<and> fst (snd (enable env w sp path)) = w
    \<and> prefix (snd (snd (enable env w sp path)))
         [E_malloc (tmp_buf_size sp), E_open path, E_fstat, E_close In_fd]
    \<and> (\<forall>k. E_read k \<notin> set (snd (snd (enable env w sp path)))
           \<and> E_write k \<notin> set (snd (snd (enable env w sp path))))"
  using assms
  by (auto simp: enable_def emit_def sys_open_in_def sys_fstat_def kind_bits_low
      split: option.splits sum.splits if_splits)

theorem enable_rejects_insecure_candidate_witness:
  "files world_open ''/home/alice/cfg'' = Some cand_open
   \<and> i_mode cand_open AND 0x3F \<noteq> 0
   \<and> enable env_ok world_open ''/var/lib/gauth/alice'' ''/home/alice/cfg''
       = (False, world_open, [E_malloc 24, E_open ''/home/alice/cfg'', E_fstat, E_close In_fd])"
proof -
  have h1: "files world_open ''/home/alice/cfg'' = Some cand_open"
    by (simp add: ref_defs)
  have h2: "i_mode cand_open AND 0x3F \<noteq> 0"
    by (simp add: ref_defs)
  then have h3: "i_kind cand_open = Symlink \<or> i_uid cand_open \<noteq> ruid world_open
      \<or> i_mode cand_open AND 0x3F \<noteq> 0"
    by blast
  have h4: "snd (snd (enable env_ok world_open ''/var/lib/gauth/alice'' ''/home/alice/cfg''))
      = [E_malloc 24, E_open ''/home/alice/cfg'', E_fstat, E_close In_fd]"
    by (simp add: enable_def emit_def sys_open_in_def sys_fstat_def tmp_buf_size_def S_IFREG_def
        ref_defs)
  show ?thesis
    using h1 h2 h4 enable_rejects_insecure_candidate [OF h1 h3, of env_ok "''/var/lib/gauth/alice''"]
    by (simp add: prod_eq_iff)
qed

subsection \<open>Installation\<close>

lemma enable_install_failure:
  assumes "\<not> fst (enable_install env w in_fd sp)"
  shows "files (fst (snd (enable_install env w in_fd sp))) sp = files w sp"
proof -
  let ?w1 = "w\<lparr>files := snd (sys_unlink (flt_unlink_tmp env) (files w) (tmp_path sp))\<rparr>"
  let ?w2 = "w\<lparr>files := snd (sys_creat_excl (flt_open_out env) ?w1 (tmp_path sp) 0x180)\<rparr>"
  let ?l = "copy_loop in_fd 0 (tmp_path sp) (rd_sched env) (wr_sched env) ?w2"
  have w1: "files ?w1 sp = files w sp"
    by (simp add: sys_unlink_other tmp_path_neq)
  have w2: "files ?w2 sp = files w sp"
    by (simp add: sys_unlink_other sys_creat_excl_other tmp_path_neq)
  obtain ok w3 t where l: "?l = (ok, w3, t)" by (cases ?l)
  have "files (fst (snd ?l)) sp = files ?w2 sp"
    by (rule copy_loop_other) (rule tmp_path_neq)
  with l w2 have w3: "files w3 sp = files w sp" by simp
  show ?thesis
    using assms w1 w2 w3
    by (cases ok) (simp_all add: enable_install_def Let_def emit_def l sys_rename_failed split: if_splits)
qed

lemma enable_install_events:
  "(E_read (- 1) \<in> set (snd (snd (enable_install env w in_fd sp)))
      \<or> E_write (- 1) \<in> set (snd (snd (enable_install env w in_fd sp)))
      \<longrightarrow> \<not> fst (enable_install env w in_fd sp))
   \<and> (fst (enable_install env w in_fd sp) \<longrightarrow>
        E_read 0 \<in> set (snd (snd (enable_install env w in_fd sp)))
        \<and> snd (snd (enable_install env w in_fd sp)) \<noteq> []
        \<and> last (snd (snd (enable_install env w in_fd sp))) = E_rename (tmp_path sp) sp)"
proof -
  let ?w1 = "w\<lparr>files := snd (sys_unlink (flt_unlink_tmp env) (files w) (tmp_path sp))\<rparr>"
  let ?w2 = "w\<lparr>files := snd (sys_creat_excl (flt_open_out env) ?w1 (tmp_path sp) 0x180)\<rparr>"
  let ?l = "copy_loop in_fd 0 (tmp_path sp) (rd_sched env) (wr_sched env) ?w2"
  obtain ok w3 t where l: "?l = (ok, w3, t)" by (cases ?l)
  from copy_loop_failure_events [of in_fd 0 "tmp_path sp" "rd_sched env" "wr_sched env" ?w2] l
  have f: "ok \<longleftrightarrow> E_read (- 1) \<notin> set t \<and> E_write (- 1) \<notin> set t" by simp
  from copy_loop_eof [of in_fd 0 "tmp_path sp" "rd_sched env" "wr_sched env" ?w2] l
  have e: "ok \<Longrightarrow> E_read 0 \<in> set t" by simp
  show ?thesis
    using f e
    by (cases ok) (auto simp: enable_install_def Let_def emit_def l split: if_splits)
qed

text \<open>
  What holds of every run: a \<^verbatim>\<open>read\<close> or \<^verbatim>\<open>write\<close> that returns -1 makes \<^verbatim>\<open>enable\<close>
  return false; whenever \<^verbatim>\<open>enable\<close> returns false, for whatever reason, the state path
  denotes what it denoted before (the same file with the same content, or nothing); and
  when the state path has changed, \<^verbatim>\<open>enable\<close> returned true, a \<^verbatim>\<open>read\<close> had returned 0,
  and the last call was the \<^verbatim>\<open>rename\<close> of the temporary name onto the state path.
\<close>

lemma enable_failure_keeps_state:
  "(E_read (- 1) \<in> set (snd (snd (enable env w sp path)))
      \<or> E_write (- 1) \<in> set (snd (snd (enable env w sp path)))
      \<longrightarrow> \<not> fst (enable env w sp path))
   \<and> (\<not> fst (enable env w sp path) \<longrightarrow>
        files (fst (snd (enable env w sp path))) sp = files w sp)
   \<and> (files (fst (snd (enable env w sp path))) sp \<noteq> files w sp \<longrightarrow>
        fst (enable env w sp path)
        \<and> E_read 0 \<in> set (snd (snd (enable env w sp path)))
        \<and> last (snd (snd (enable env w sp path))) = E_rename (tmp_path sp) sp)"
proof -
  consider (rejected) "\<not> fst (enable env w sp path)" "fst (snd (enable env w sp path)) = w"
      "prefix (snd (snd (enable env w sp path)))
           [E_malloc (tmp_buf_size sp), E_open path, E_fstat, E_close In_fd]"
    | (install) in_fd where "enable env w sp path
             = emit [E_malloc (tmp_buf_size sp), E_open path, E_fstat]
                 (enable_install env w in_fd sp)"
    using enable_cases [of env w sp path] by blast
  then show ?thesis
  proof cases
    case rejected
    then show ?thesis by simp
  next
    case install
    show ?thesis
      using enable_install_failure [of env w in_fd sp] enable_install_events [of env w in_fd sp]
      by (auto simp: install emit_def)
  qed
qed

lemma enable_failure_keeps_state_example:
  "E_read (- 1) \<in> set (snd (snd (enable (env_ok\<lparr>rd_sched := [Rd_short 0, Rd_fail EIO]\<rparr>) world1
                                    ''/var/lib/gauth/alice'' ''/home/alice/cfg'')))
   \<and> \<not> fst (enable (env_ok\<lparr>rd_sched := [Rd_short 0, Rd_fail EIO]\<rparr>) world1
              ''/var/lib/gauth/alice'' ''/home/alice/cfg'')
   \<and> files (fst (snd (enable (env_ok\<lparr>rd_sched := [Rd_short 0, Rd_fail EIO]\<rparr>) world1
                         ''/var/lib/gauth/alice'' ''/home/alice/cfg''))) ''/var/lib/gauth/alice''
       = Some state_old
   \<and> files (fst (snd (enable env_ok world1 ''/var/lib/gauth/alice'' ''/home/alice/cfg'')))
         ''/var/lib/gauth/alice'' \<noteq> files world1 ''/var/lib/gauth/alice''
   \<and> fst (enable env_ok world1 ''/var/lib/gauth/alice'' ''/home/alice/cfg'')
   \<and> last (snd (snd (enable env_ok world1 ''/var/lib/gauth/alice'' ''/home/alice/cfg'')))
       = E_rename ''/var/lib/gauth/alice.new'' ''/var/lib/gauth/alice''"
proof -
  have h1: "E_read (- 1) \<in> set (snd (snd (enable (env_ok\<lparr>rd_sched := [Rd_short 0, Rd_fail EIO]\<rparr>)
      world1 ''/var/lib/gauth/alice'' ''/home/alice/cfg'')))"
    by (simp add: eval_defs ref_defs)
  have h2: "files (fst (snd (enable env_ok world1 ''/var/lib/gauth/alice'' ''/home/alice/cfg'')))
         ''/var/lib/gauth/alice'' \<noteq> files world1 ''/var/lib/gauth/alice''"
    by (simp add: eval_defs ref_defs)
  have h3: "files world1 ''/var/lib/gauth/alice'' = Some state_old"
    by (simp add: ref_defs)
  show ?thesis
    using h1 h2 h3
      enable_failure_keeps_state [of "env_ok\<lparr>rd_sched := [Rd_short 0, Rd_fail EIO]\<rparr>" world1
        "''/var/lib/gauth/alice''" "''/home/alice/cfg''"]
      enable_failure_keeps_state [of env_ok world1 "''/var/lib/gauth/alice''" "''/home/alice/cfg''"]
    by (simp add: tmp_path_def)
qed

text \<open>
  C4 (a failed \<^verbatim>\<open>read\<close> or \<^verbatim>\<open>write\<close> leaves the state path untouched, and the state
  changes only at the \<^verbatim>\<open>rename\<close> after a complete copy). The first part holds
  (\<open>enable_failure_keeps_state\<close>); the \<^verbatim>\<open>rename\<close> need not come after a complete copy.
  With an installed state file of the bytes 9, 9, 9, a candidate of the two bytes 1, 2
  and a \<^verbatim>\<open>write\<close> that accepts one byte and returns 1, no call returns -1, \<^verbatim>\<open>enable\<close>
  returns true, and the \<^verbatim>\<open>rename\<close> replaces the state file by one that holds the single
  byte 1: the loop never compares what \<^verbatim>\<open>write\<close> returned with what \<^verbatim>\<open>read\<close> delivered.
\<close>

theorem enable_renames_incomplete_copy:
  "files world1 ''/var/lib/gauth/alice'' = Some state_old
   \<and> i_data state_old = [9, 9, 9]
   \<and> map_option i_data (files world1 ''/home/alice/cfg'') = Some [1, 2]
   \<and> enable (env_ok\<lparr>wr_sched := [Wr_short 1]\<rparr>) world1 ''/var/lib/gauth/alice'' ''/home/alice/cfg''
       = (True,
          world1\<lparr>files := [''/home/alice/cfg'' \<mapsto> cand_ok,
                            ''/var/lib/gauth/alice'' \<mapsto>
                              \<lparr>i_kind = Regular, i_uid = 0, i_mode = 0x180, i_data = [1]\<rparr>]\<rparr>,
          [E_malloc 24, E_open ''/home/alice/cfg'', E_fstat, E_unlink ''/var/lib/gauth/alice.new'',
           E_creat ''/var/lib/gauth/alice.new'', E_read 2, E_write 1, E_read 0,
           E_close Out_fd, E_close In_fd,
           E_rename ''/var/lib/gauth/alice.new'' ''/var/lib/gauth/alice''])"
  by (simp add: eval_defs ref_defs fun_eq_iff)

subsection \<open>What a successful installation leaves\<close>

text \<open>When no \<^verbatim>\<open>write\<close> is cut short, a successful \<^verbatim>\<open>enable\<close> leaves at the state path a
  regular file of the effective user, with the mode \<^verbatim>\<open>0600\<close> less the umask and the bytes
  of the candidate, and no file at the temporary name.\<close>

lemma enable_install_complete:
  assumes "wr_sched env = []" and "fst (enable_install env w in_fd sp)"
  shows "files (fst (snd (enable_install env w in_fd sp))) sp
           = Some \<lparr>i_kind = Regular, i_uid = euid w,
                   i_mode = 0x180 AND NOT (cur_umask w), i_data = i_data in_fd\<rparr>
         \<and> files (fst (snd (enable_install env w in_fd sp))) (tmp_path sp) = None"
proof -
  let ?w1 = "w\<lparr>files := snd (sys_unlink (flt_unlink_tmp env) (files w) (tmp_path sp))\<rparr>"
  let ?c = "sys_creat_excl (flt_open_out env) ?w1 (tmp_path sp) 0x180"
  let ?w2 = "w\<lparr>files := snd ?c\<rparr>"
  let ?l = "copy_loop in_fd 0 (tmp_path sp) (rd_sched env) [] ?w2"
  let ?new = "\<lparr>i_kind = Regular, i_uid = euid w, i_mode = 0x180 AND NOT (cur_umask w),
               i_data = []\<rparr>"
  obtain ok w3 t where l: "?l = (ok, w3, t)" by (cases ?l)
  from assms have c: "fst ?c = None"
    by (auto simp: enable_install_def Let_def emit_def split: if_splits)
  from assms c l have ok: "ok"
    by (cases ok) (auto simp: enable_install_def Let_def emit_def split: if_splits)
  from assms c l ok have r: "fst (sys_rename (flt_rename env) (files w3) (tmp_path sp) sp) = None"
    by (auto simp: enable_install_def Let_def emit_def split: if_splits)
  from sys_creat_excl_done [OF c] have "files ?w2 (tmp_path sp) = Some ?new"
    by simp
  from copy_loop_complete [of in_fd 0 "tmp_path sp" "rd_sched env" ?w2, OF _ this] l ok
  have w3: "files w3 (tmp_path sp) = Some (?new\<lparr>i_data := i_data in_fd\<rparr>)"
    by simp
  from sys_rename_done [OF r tmp_path_neq w3]
  have "snd (sys_rename (flt_rename env) (files w3) (tmp_path sp) sp)
      = ((files w3)(sp \<mapsto> ?new\<lparr>i_data := i_data in_fd\<rparr>))(tmp_path sp := None)" .
  with assms c l ok r show ?thesis
    using tmp_path_neq [of sp]
    by (auto simp: enable_install_def Let_def emit_def split: if_splits)
qed

lemma enable_installs_candidate:
  assumes "wr_sched env = []" and "fst (enable env w sp path)"
  shows "\<exists>n. files w path = Some n
      \<and> files (fst (snd (enable env w sp path))) sp
          = Some \<lparr>i_kind = Regular, i_uid = euid w,
                  i_mode = 0x180 AND NOT (cur_umask w), i_data = i_data n\<rparr>
      \<and> files (fst (snd (enable env w sp path))) (tmp_path sp) = None"
proof -
  from enable_cases [of env w sp path] assms(2)
  obtain in_fd where n: "files w path = Some in_fd"
    and e: "enable env w sp path
             = emit [E_malloc (tmp_buf_size sp), E_open path, E_fstat]
                 (enable_install env w in_fd sp)"
    by blast
  from assms(2) e have "fst (enable_install env w in_fd sp)"
    by (simp add: emit_def)
  from enable_install_complete [OF assms(1) this] n show ?thesis
    by (simp add: e emit_def)
qed

text \<open>
  C2 (after a successful \<^verbatim>\<open>enable\<close> the state path holds exactly the bytes of the
  candidate). The loop looks only at the return value -1 of \<^verbatim>\<open>write\<close>, so a \<^verbatim>\<open>write\<close> that
  takes fewer bytes than it was given loses the rest: with a candidate of the two bytes
  1, 2 and a \<^verbatim>\<open>write\<close> that accepts one byte, \<^verbatim>\<open>enable\<close> returns true and the state file
  holds the single byte 1.
\<close>

theorem enable_short_write_truncates:
  "fst (enable (env_ok\<lparr>wr_sched := [Wr_short 1]\<rparr>) world0 ''/var/lib/gauth/alice'' ''/home/alice/cfg'')
   \<and> map_option i_data (files world0 ''/home/alice/cfg'') = Some [1, 2]
   \<and> map_option i_data
        (files (fst (snd (enable (env_ok\<lparr>wr_sched := [Wr_short 1]\<rparr>) world0
                           ''/var/lib/gauth/alice'' ''/home/alice/cfg'')))
           ''/var/lib/gauth/alice'') = Some [1]
   \<and> snd (snd (enable (env_ok\<lparr>wr_sched := [Wr_short 1]\<rparr>) world0
                  ''/var/lib/gauth/alice'' ''/home/alice/cfg''))
       = [E_malloc 24, E_open ''/home/alice/cfg'', E_fstat, E_unlink ''/var/lib/gauth/alice.new'',
          E_creat ''/var/lib/gauth/alice.new'', E_read 2, E_write 1, E_read 0,
          E_close Out_fd, E_close In_fd,
          E_rename ''/var/lib/gauth/alice.new'' ''/var/lib/gauth/alice'']"
  by (simp add: eval_defs ref_defs)

end
